theory Spec2Isabelle
  imports Main "HOL-Library.Word" "HOL-Library.Sublist"
begin

section \<open>The connection manager of internal/interaction/ws_conn.go\<close>

text \<open>
  The file embeds \<^verbatim>\<open>WsConn\<close> and its methods. The manager's collaborators are Go
  interfaces whose implementations live outside the file: the transport
  (\<^verbatim>\<open>LongConn\<close>), the lifecycle listener, the encoder, the compressor and the
  command channel. The transport, the encoder and the compressor are taken as
  parameters (records of functions, or fields of the manager as in the source);
  every call the manager makes on the transport, the listener and the command
  channel is appended to a trace, so that "called", "not called" and "called in
  this order" are statements about a list. The mutex is not modelled: each
  method is one sequential step.
\<close>

subsection \<open>Errors\<close>

text \<open>
  A Go \<^verbatim>\<open>error\<close> is an interface value: \<^verbatim>\<open>nil\<close> or an object with a description
  (\<^verbatim>\<open>Error()\<close>). A non-nil error is a value of \<open>error\<close>; the interface value is an
  \<open>error option\<close>, \<open>None\<close> for \<^verbatim>\<open>nil\<close>. \<open>New s\<close> is \<^verbatim>\<open>errors.New(s)\<close>, and also any
  error of a collaborator whose description is \<open>s\<close>.
\<close>

datatype error = New string | WithMessage error string

fun Error :: "error \<Rightarrow> string" where
  "Error (New s) = s"
| "Error (WithMessage e m) = m @ '': '' @ Error e"

text \<open>
  Modelled from the spec: \<^verbatim>\<open>utils.Wrap\<close> (package open_im_sdk/pkg/utils) is not in the
  source file. The spec says that returned errors are wrapped with a short
  contextual tag, and it speaks of sends and closes that succeed although their
  last statement returns \<^verbatim>\<open>utils.Wrap(err, "")\<close>: wrapping \<^verbatim>\<open>nil\<close> gives \<^verbatim>\<open>nil\<close> (as
  \<^verbatim>\<open>Wrap\<close> of github.com/pkg/errors does), and wrapping an error gives an error
  holding the cause and the tag. The caller position that the helper puts in
  front of the tag is left out of the message.
\<close>

fun Wrap :: "error option \<Rightarrow> string \<Rightarrow> error option" where
  "Wrap None message = None"
| "Wrap (Some err) message = Some (WithMessage err message)"

datatype panic = NilPointerDereference | InterfaceConversion

subsection \<open>Library functions used by the file\<close>

text \<open>\<^verbatim>\<open>strings.Contains(s, substr)\<close>: some position of \<open>s\<close> starts with \<open>substr\<close>.\<close>

fun Contains :: "string \<Rightarrow> string \<Rightarrow> bool" where
  "Contains [] substr = (substr = [])"
| "Contains (c # s) substr = (prefix substr (c # s) \<or> Contains s substr)"

text \<open>
  Modelled from the spec: \<^verbatim>\<open>utils.IntToString\<close> is not in the source file; the
  oversized-message error "carries the actual length", which the helper renders
  in decimal (\<^verbatim>\<open>strconv.FormatInt(int64(i), 10)\<close>). \<open>FormatInt\<close> is also the
  \<^verbatim>\<open>%d\<close> of \<^verbatim>\<open>fmt.Sprintf\<close>.
\<close>

definition digit_char :: "nat \<Rightarrow> char" where
  "digit_char d = char_of (48 + d)"

fun FormatNat :: "nat \<Rightarrow> string" where
  "FormatNat n = (if n < 10 then [digit_char n] else FormatNat (n div 10) @ [digit_char (n mod 10)])"

declare FormatNat.simps [simp del]

definition FormatInt :: "int \<Rightarrow> string" where
  "FormatInt i = (if i < 0 then CHR ''-'' # FormatNat (nat (- i)) else FormatNat (nat i))"

definition IntToString :: "int \<Rightarrow> string" where
  "IntToString i = FormatInt i"

text \<open>The inverse of \<open>FormatNat\<close>, used to state that a rendered length can be read back.\<close>

definition digit_val :: "char \<Rightarrow> nat" where
  "digit_val c = of_char c - 48"

definition ParseNat :: "string \<Rightarrow> nat" where
  "ParseNat s = foldl (\<lambda>acc c. 10 * acc + digit_val c) 0 s"

subsection \<open>Data\<close>

type_synonym int32 = "32 word"
type_synonym byte = "8 word"
type_synonym Header = "(string \<times> string list) list"

text \<open>
  \<^verbatim>\<open>*http.Response\<close>, as far as the file reads it: the status code (a Go \<^verbatim>\<open>int\<close>, 64
  bits) and \<^verbatim>\<open>Header.Get\<close>, the lookup of a header's first value.
\<close>

record Response =
  StatusCode :: "64 word"
  HeaderGet :: "string \<Rightarrow> string"

text \<open>
  The constants of package \<^verbatim>\<open>constant\<close> and the server configuration
  \<^verbatim>\<open>sdk_struct.SvrConf\<close> are declared outside the file: they are parameters.
\<close>

record Constant =
  ErrTokenExpired :: int32
  ErrTokenInvalid :: int32
  ErrTokenMalformed :: int32
  ErrTokenNotValidYet :: int32
  ErrTokenUnknown :: int32
  ErrTokenDifferentPlatformID :: int32
  ErrTokenDifferentUserID :: int32
  ErrTokenKicked :: int32
  TokenFailedKickedOffline :: int32
  LoginSuccess :: int32
  LoginFailed :: int32
  MsgSyncBegin :: int32
  MsgSyncFailed :: int32
  MaxTotalMsgLen :: int

record SvrConf =
  WsAddr :: string
  Platform :: int32

datatype MsgData = MsgData "byte list"

record CmdNewMsgComeToConversation =
  MsgList :: "MsgData list"
  OperationID :: string
  SyncFlag :: int32

type_synonym chan = nat
type_synonym OnConnListener = nat

text \<open>
  \<^verbatim>\<open>ctx.Value("operationID").(string)\<close>: the context is the string stored under
  the key, \<open>None\<close> when there is none or it is no string (the type assertion
  panics).
\<close>

type_synonym Context = "string option"

text \<open>\<^verbatim>\<open>websocket.BinaryMessage\<close> of gorilla/websocket.\<close>

definition BinaryMessage :: int where
  "BinaryMessage = 2"

definition writeTimeoutSeconds :: int where
  "writeTimeoutSeconds = 30"

text \<open>
  The transport interface \<^verbatim>\<open>LongConn\<close> over a transport state \<open>'c\<close>: each method
  returns its results and the transport's next state.
\<close>

record 'c LongConn =
  IsNil :: "'c \<Rightarrow> bool"
  Close :: "'c \<Rightarrow> error option \<times> 'c"
  Dial :: "string \<Rightarrow> Header \<Rightarrow> 'c \<Rightarrow> (Response option \<times> error option) \<times> 'c"
  SetWriteTimeout :: "int \<Rightarrow> 'c \<Rightarrow> error option \<times> 'c"
  SetReadTimeout :: "int \<Rightarrow> 'c \<Rightarrow> error option \<times> 'c"
  WriteMessage :: "int \<Rightarrow> byte list \<Rightarrow> 'c \<Rightarrow> error option \<times> 'c"

text \<open>
  \<^verbatim>\<open>WsConn\<close>. \<open>conn\<close> is the state of the transport object the manager holds;
  \<open>listener\<close> and \<open>ConversationCh\<close> are \<open>None\<close> for \<^verbatim>\<open>nil\<close>. The encoder and the
  compressor return Go's pair of bytes and error.
\<close>

record ('c, 'r) WsConn =
  conn :: 'c
  loginStatus :: int32
  listener :: "OnConnListener option"
  encoder :: "'r \<Rightarrow> byte list \<times> error option"
  compressor :: "byte list \<Rightarrow> byte list \<times> error option"
  token :: string
  loginUserID :: string
  IsCompression :: bool
  ConversationCh :: "chan option"
  tokenErrCode :: int32

datatype event =
    OnConnecting
  | OnConnectSuccess
  | OnConnectFailed int32 string
  | OnUserTokenExpired
  | ConnClose
  | ConnDial string Header
  | ConnSetWriteTimeout int
  | ConnWriteMessage int "byte list"
  | TriggerCmdSuperGroupMsgCome CmdNewMsgComeToConversation chan

subsection \<open>Methods\<close>

definition IsInterruptReconnection :: "('c, 'r) WsConn \<Rightarrow> bool" where
  "IsInterruptReconnection u = (if tokenErrCode u \<noteq> 0 then True else False)"

definition LoginStatus :: "('c, 'r) WsConn \<Rightarrow> int32" where
  "LoginStatus u = loginStatus u"

definition SetLoginStatus :: "int32 \<Rightarrow> ('c, 'r) WsConn \<Rightarrow> ('c, 'r) WsConn" where
  "SetLoginStatus loginState u = u\<lparr>loginStatus := loginState\<rparr>"

definition CloseConn ::
  "'c LongConn \<Rightarrow> ('c, 'r) WsConn \<Rightarrow> event list \<Rightarrow> error option \<times> ('c, 'r) WsConn \<times> event list" where
  "CloseConn T u tr =
     (if \<not> IsNil T (conn u) then
        (case Close T (conn u) of (err, c) \<Rightarrow>
           (Wrap err '''', u\<lparr>conn := c\<rparr>, tr @ [ConnClose]))
      else (None, u, tr))"

text \<open>
  The three classifiers call \<^verbatim>\<open>err.Error()\<close>, which panics on a \<^verbatim>\<open>nil\<close> error.
\<close>

definition IsReadTimeout :: "error option \<Rightarrow> panic + bool" where
  "IsReadTimeout err =
     (case err of None \<Rightarrow> Inl NilPointerDereference
      | Some e \<Rightarrow> if Contains (Error e) ''timeout'' then Inr True else Inr False)"

definition IsWriteTimeout :: "error option \<Rightarrow> panic + bool" where
  "IsWriteTimeout err =
     (case err of None \<Rightarrow> Inl NilPointerDereference
      | Some e \<Rightarrow> if Contains (Error e) ''timeout'' then Inr True else Inr False)"

definition IsFatalError :: "error option \<Rightarrow> panic + bool" where
  "IsFatalError err =
     (case err of None \<Rightarrow> Inl NilPointerDereference
      | Some e \<Rightarrow> if Contains (Error e) ''timeout'' then Inr False else Inr True)"

text \<open>
  \<^verbatim>\<open>writeBinaryMsg\<close>: encode, check the handle, arm the write deadline, check the
  size of the encoded bytes, compress if enabled, write one binary frame.
\<close>

definition writeBinaryMsg ::
  "'c LongConn \<Rightarrow> Constant \<Rightarrow> 'r \<Rightarrow> ('c, 'r) WsConn \<Rightarrow> event list
     \<Rightarrow> error option \<times> ('c, 'r) WsConn \<times> event list" where
  "writeBinaryMsg T K msg u tr =
     (case encoder u msg of (data, err) \<Rightarrow>
      (case err of
         Some e \<Rightarrow> (Wrap (Some e) ''Encode error'', u, tr)
       | None \<Rightarrow>
           if \<not> IsNil T (conn u) then
             (case SetWriteTimeout T writeTimeoutSeconds (conn u) of (err1, c1) \<Rightarrow>
              (let u1 = u\<lparr>conn := c1\<rparr>; tr1 = tr @ [ConnSetWriteTimeout writeTimeoutSeconds] in
               case err1 of
                 Some e1 \<Rightarrow> (Wrap (Some e1) ''SetWriteTimeout'', u1, tr1)
               | None \<Rightarrow>
                   if int (length data) > MaxTotalMsgLen K then
                     (Wrap (Some (New ''msg too long'')) (IntToString (int (length data))), u1, tr1)
                   else
                     (case (if IsCompression u1 then compressor u1 data else (data, None)) of
                        (compressData, err2) \<Rightarrow>
                          (case err2 of
                             Some e2 \<Rightarrow> (Wrap (Some e2) '''', u1, tr1)
                           | None \<Rightarrow>
                               (case WriteMessage T BinaryMessage compressData (conn u1) of
                                  (err3, c3) \<Rightarrow>
                                    (Wrap err3 '''', u1\<lparr>conn := c3\<rparr>,
                                     tr1 @ [ConnWriteMessage BinaryMessage compressData]))))))
           else (Wrap (Some (New ''conn==nil'')) '''', u, tr)))"

text \<open>
  \<^verbatim>\<open>ReConn\<close>. The result is the returned triple (retry, kicked, error), or the
  panic of a \<^verbatim>\<open>nil\<close> listener or of a context without the operation ID. The dial
  target and the header are built as the source builds them.
\<close>

definition dial_url :: "SvrConf \<Rightarrow> ('c, 'r) WsConn \<Rightarrow> string \<Rightarrow> string" where
  "dial_url conf u operationID =
     WsAddr conf @ ''?sendID='' @ loginUserID u @ ''&token='' @ token u
       @ ''&platformID='' @ FormatInt (sint (Platform conf)) @ ''&operationID='' @ operationID"

definition dial_header :: "('c, 'r) WsConn \<Rightarrow> Header" where
  "dial_header u = (if IsCompression u then [(''compression'', [''gzip''])] else [])"

text \<open>Lines 194 to 200: the old connection is closed and the error of the close dropped.\<close>

definition close_old ::
  "'c LongConn \<Rightarrow> ('c, 'r) WsConn \<Rightarrow> event list \<Rightarrow> ('c, 'r) WsConn \<times> event list" where
  "close_old T u tr =
     (if \<not> IsNil T (conn u) then
        (case Close T (conn u) of (err, c) \<Rightarrow> (u\<lparr>conn := c\<rparr>, tr @ [ConnClose]))
      else (u, tr))"

type_synonym ReConn_result = "panic + (bool \<times> bool \<times> error option)"

text \<open>Lines 219 to 259: the dial failed and the server answered.\<close>

definition ReConn_responded ::
  "Constant \<Rightarrow> string \<Rightarrow> Response \<Rightarrow> error \<Rightarrow> ('c, 'r) WsConn \<Rightarrow> event list
     \<Rightarrow> ReConn_result \<times> ('c, 'r) WsConn \<times> event list" where
  "ReConn_responded K operationID httpResp err u tr =
     (let errMsg = HeaderGet httpResp ''ws_err_msg'' @ '' operationID '' @ operationID @ Error err;
          code = (ucast (StatusCode httpResp) :: int32);
          tr1 = tr @ [OnConnectFailed code errMsg]
      in if code = ErrTokenExpired K then
           (Inr (False, False, Wrap (Some err) errMsg),
            u\<lparr>tokenErrCode := ErrTokenExpired K\<rparr>, tr1 @ [OnUserTokenExpired])
         else if code = ErrTokenInvalid K then
           (Inr (False, False, Wrap (Some err) errMsg), u\<lparr>tokenErrCode := ErrTokenInvalid K\<rparr>, tr1)
         else if code = ErrTokenMalformed K then
           (Inr (False, False, Wrap (Some err) errMsg), u\<lparr>tokenErrCode := ErrTokenMalformed K\<rparr>, tr1)
         else if code = ErrTokenNotValidYet K then
           (Inr (False, False, Wrap (Some err) errMsg), u\<lparr>tokenErrCode := ErrTokenNotValidYet K\<rparr>, tr1)
         else if code = ErrTokenUnknown K then
           (Inr (False, False, Wrap (Some err) errMsg), u\<lparr>tokenErrCode := ErrTokenUnknown K\<rparr>, tr1)
         else if code = ErrTokenDifferentPlatformID K then
           (Inr (False, False, Wrap (Some err) errMsg),
            u\<lparr>tokenErrCode := ErrTokenDifferentPlatformID K\<rparr>, tr1)
         else if code = ErrTokenDifferentUserID K then
           (Inr (False, False, Wrap (Some err) errMsg),
            u\<lparr>tokenErrCode := ErrTokenDifferentUserID K\<rparr>, tr1)
         else if code = ErrTokenKicked K then
           (Inr (False, True, Wrap (Some err) errMsg), u\<lparr>tokenErrCode := ErrTokenKicked K\<rparr>, tr1)
         else
           (let errMsg' = Error err @ '' operationID '' @ operationID
            in (Inr (True, False, Wrap (Some err) errMsg'), u, tr1 @ [OnConnectFailed 1001 errMsg'])))"

text \<open>Lines 260 to 270: the dial failed and no server answered.\<close>

definition ReConn_no_response ::
  "Constant \<Rightarrow> string \<Rightarrow> error \<Rightarrow> ('c, 'r) WsConn \<Rightarrow> event list
     \<Rightarrow> ReConn_result \<times> ('c, 'r) WsConn \<times> event list" where
  "ReConn_no_response K operationID err u tr =
     (let errMsg = Error err @ '' operationID '' @ operationID;
          tr1 = tr @ [OnConnectFailed 1001 errMsg];
          tr2 = (case ConversationCh u of
                   Some ch \<Rightarrow>
                     tr1 @ [TriggerCmdSuperGroupMsgCome
                              \<lparr>MsgList = [], OperationID = operationID, SyncFlag = MsgSyncBegin K\<rparr> ch,
                            TriggerCmdSuperGroupMsgCome
                              \<lparr>MsgList = [], OperationID = operationID, SyncFlag = MsgSyncFailed K\<rparr> ch]
                 | None \<Rightarrow> tr1)
      in (Inr (True, False, Wrap (Some err) errMsg), u, tr2))"

definition ReConn ::
  "'c LongConn \<Rightarrow> Constant \<Rightarrow> SvrConf \<Rightarrow> Context \<Rightarrow> ('c, 'r) WsConn \<Rightarrow> event list
     \<Rightarrow> ReConn_result \<times> ('c, 'r) WsConn \<times> event list" where
  "ReConn T K conf ctx u tr =
     (case close_old T (u\<lparr>tokenErrCode := 0\<rparr>) tr of (u1, tr1) \<Rightarrow>
        if loginStatus u1 = TokenFailedKickedOffline K then
          (Inr (False, False, Wrap (Some (New ''don't re conn'')) ''TokenFailedKickedOffline''), u1, tr1)
        else
          (case listener u1 of
             None \<Rightarrow> (Inl NilPointerDereference, u1, tr1)
           | Some l \<Rightarrow>
               (case ctx of
                  None \<Rightarrow> (Inl InterfaceConversion, u1, tr1 @ [OnConnecting])
                | Some operationID \<Rightarrow>
                    (let url = dial_url conf u1 operationID;
                         header = dial_header u1;
                         tr2 = tr1 @ [OnConnecting, ConnDial url header]
                     in case Dial T url header (conn u1) of ((httpResp, err), c) \<Rightarrow>
                          (case err of
                             Some e \<Rightarrow>
                               (let u2 = u1\<lparr>conn := c, loginStatus := LoginFailed K\<rparr>
                                in case httpResp of
                                     Some r \<Rightarrow> ReConn_responded K operationID r e u2 tr2
                                   | None \<Rightarrow> ReConn_no_response K operationID e u2 tr2)
                           | None \<Rightarrow>
                               (Inr (True, False, None),
                                u1\<lparr>conn := c, loginStatus := LoginSuccess K\<rparr>,
                                tr2 @ [OnConnectSuccess]))))))"

subsection \<open>Reading the trace\<close>

text \<open>The transport state that the best-effort close of lines 194 to 200 leaves.\<close>

definition closed_conn :: "'c LongConn \<Rightarrow> 'c \<Rightarrow> 'c" where
  "closed_conn T c = (if IsNil T c then c else snd (Close T c))"

text \<open>The signals pushed on the command channel, in order.\<close>

fun signals :: "event list \<Rightarrow> (CmdNewMsgComeToConversation \<times> chan) list" where
  "signals [] = []"
| "signals (TriggerCmdSuperGroupMsgCome cmd ch # tr) = (cmd, ch) # signals tr"
| "signals (ev # tr) = signals tr"

text \<open>The calls of the listener's \<^verbatim>\<open>OnConnectFailed\<close>, in order.\<close>

fun connect_failed_calls :: "event list \<Rightarrow> (int32 \<times> string) list" where
  "connect_failed_calls [] = []"
| "connect_failed_calls (OnConnectFailed code msg # tr) = (code, msg) # connect_failed_calls tr"
| "connect_failed_calls (ev # tr) = connect_failed_calls tr"

text \<open>The frames written to the transport, in order.\<close>

fun frame_writes :: "event list \<Rightarrow> (int \<times> byte list) list" where
  "frame_writes [] = []"
| "frame_writes (ConnWriteMessage t d # tr) = (t, d) # frame_writes tr"
| "frame_writes (ev # tr) = frame_writes tr"

subsection \<open>A concrete configuration\<close>

text \<open>
  A sample set of constants, a sample server configuration, a transport double
  whose answers are fixed in advance (its state tells whether it holds a
  connection; closing does not drop the handle, a successful dial sets it) and a
  sample manager. They are the concrete inputs of the instances below.
\<close>

definition sample_constants :: Constant where
  "sample_constants =
     \<lparr>ErrTokenExpired = 701, ErrTokenInvalid = 702, ErrTokenMalformed = 703,
      ErrTokenNotValidYet = 704, ErrTokenUnknown = 705, ErrTokenDifferentPlatformID = 707,
      ErrTokenDifferentUserID = 708, ErrTokenKicked = 706, TokenFailedKickedOffline = 706,
      LoginSuccess = 101, LoginFailed = 103, MsgSyncBegin = 1001, MsgSyncFailed = 1004,
      MaxTotalMsgLen = 51200\<rparr>"

definition sample_conf :: SvrConf where
  "sample_conf = \<lparr>WsAddr = ''ws://h'', Platform = 1\<rparr>"

definition stub_conn ::
  "Response option \<times> error option \<Rightarrow> error option \<Rightarrow> error option \<Rightarrow> bool LongConn" where
  "stub_conn dial_result deadline_result write_result =
     \<lparr>IsNil = (\<lambda>c. \<not> c),
      Close = (\<lambda>c. (None, c)),
      Dial = (\<lambda>url header c. (dial_result, if snd dial_result = None then True else c)),
      SetWriteTimeout = (\<lambda>t c. (deadline_result, c)),
      SetReadTimeout = (\<lambda>t c. (None, c)),
      WriteMessage = (\<lambda>t d c. (write_result, c))\<rparr>"

definition sample_manager :: "(bool, byte list) WsConn" where
  "sample_manager =
     \<lparr>conn = True, loginStatus = 101, listener = Some 0,
      encoder = (\<lambda>r. (r, None)), compressor = (\<lambda>d. (31 # 139 # d, None)),
      token = ''t'', loginUserID = ''u'', IsCompression = False,
      ConversationCh = Some 0, tokenErrCode = 702\<rparr>"

definition sample_response :: "64 word \<Rightarrow> Response" where
  "sample_response code = \<lparr>StatusCode = code, HeaderGet = (\<lambda>k. ''rejected'')\<rparr>"

section \<open>Properties\<close>

subsection \<open>Auxiliary facts\<close>

lemma Contains_sublist: "Contains s substr \<longleftrightarrow> sublist substr s"
  by (induction s) (simp_all add: sublist_Cons_right)

lemma close_old_eq:
  "close_old T u tr =
     (u\<lparr>conn := closed_conn T (conn u)\<rparr>, tr @ (if IsNil T (conn u) then [] else [ConnClose]))"
  by (simp add: close_old_def closed_conn_def split: prod.split)

lemma ReConn_kicked_eq:
  assumes "loginStatus u = TokenFailedKickedOffline K"
  shows "ReConn T K conf ctx u tr =
           (Inr (False, False,
                 Some (WithMessage (New ''don't re conn'') ''TokenFailedKickedOffline'')),
            u\<lparr>conn := closed_conn T (conn u), tokenErrCode := 0\<rparr>,
            tr @ (if IsNil T (conn u) then [] else [ConnClose]))"
  using assms by (simp add: ReConn_def close_old_eq)

lemma stub_conn_simps:
  "IsNil (stub_conn d w x) c = (\<not> c)"
  "Close (stub_conn d w x) c = (None, c)"
  "Dial (stub_conn d w x) url h c = (d, if snd d = None then True else c)"
  "SetWriteTimeout (stub_conn d w x) t c = (w, c)"
  "WriteMessage (stub_conn d w x) t b c = (x, c)"
  by (simp_all add: stub_conn_def)

lemma sample_manager_simps:
  "conn sample_manager = True"
  "loginStatus sample_manager = 101"
  "listener sample_manager = Some 0"
  "IsCompression sample_manager = False"
  "ConversationCh sample_manager = Some 0"
  "tokenErrCode sample_manager = 702"
  "encoder sample_manager r = (r, None)"
  "compressor sample_manager d = (31 # 139 # d, None)"
  by (simp_all add: sample_manager_def)

subsection \<open>The timeout classifiers\<close>

text \<open>
  Claim C8. For every (non-nil) error, \<^verbatim>\<open>IsReadTimeout\<close> and \<^verbatim>\<open>IsWriteTimeout\<close> return
  true exactly when the error's description contains the marker "timeout" as a
  contiguous substring, \<^verbatim>\<open>IsFatalError\<close> returns true exactly when it does not; so
  the first two agree on every error value and the third is the negation of the
  first (on \<^verbatim>\<open>nil\<close> all three panic alike).
\<close>

theorem timeout_classifiers:
  "IsReadTimeout (Some e) = Inr (sublist ''timeout'' (Error e))
   \<and> IsWriteTimeout (Some e) = Inr (sublist ''timeout'' (Error e))
   \<and> IsFatalError (Some e) = Inr (\<not> sublist ''timeout'' (Error e))
   \<and> IsReadTimeout err = IsWriteTimeout err
   \<and> IsFatalError err = map_sum id Not (IsReadTimeout err)"
  unfolding IsReadTimeout_def IsWriteTimeout_def IsFatalError_def Contains_sublist
  by (cases err) simp_all

subsection \<open>The guard on a kicked session\<close>

text \<open>
  Claim C2. Every call of \<^verbatim>\<open>ReConn\<close> made while the login status is
  \<^verbatim>\<open>TokenFailedKickedOffline\<close> returns (false, false, a non-nil error); the only
  call it makes is the close of a live old connection, so the listener's
  \<^verbatim>\<open>OnConnecting\<close> is not invoked and the transport is not dialled.
\<close>

theorem ReConn_kicked_offline:
  assumes "loginStatus u = TokenFailedKickedOffline K"
  shows "\<exists>err new. ReConn T K conf ctx u tr = (Inr (False, False, Some err),
                        u\<lparr>conn := closed_conn T (conn u), tokenErrCode := 0\<rparr>, tr @ new)
           \<and> new = (if IsNil T (conn u) then [] else [ConnClose])
           \<and> OnConnecting \<notin> set new \<and> (\<forall>url header. ConnDial url header \<notin> set new)"
  using ReConn_kicked_eq [OF assms] by simp

theorem ReConn_kicked_offline_witness:
  "loginStatus (sample_manager\<lparr>loginStatus := 706\<rparr>) = TokenFailedKickedOffline sample_constants
   \<and> (\<exists>err. fst (ReConn (stub_conn (None, None) None None) sample_constants sample_conf
                  (Some ''op'') (sample_manager\<lparr>loginStatus := 706\<rparr>) []) =
               Inr (False, False, Some err))
   \<and> snd (snd (ReConn (stub_conn (None, None) None None) sample_constants sample_conf
                  (Some ''op'') (sample_manager\<lparr>loginStatus := 706\<rparr>) [])) = [ConnClose]"
proof -
  have k: "loginStatus (sample_manager\<lparr>loginStatus := 706\<rparr>)
             = TokenFailedKickedOffline sample_constants"
    by (simp add: sample_constants_def)
  from ReConn_kicked_offline [OF k, of "stub_conn (None, None) None None" sample_conf
      "Some ''op''" "[]"]
  show ?thesis using k by (auto simp: stub_conn_simps sample_manager_simps)
qed

text \<open>
  Claim C10. A call of \<^verbatim>\<open>ReConn\<close> that stops at the guard has reset
  \<^verbatim>\<open>tokenErrCode\<close> to 0 before the guard: whatever the code was before, it is 0
  after the call, and \<^verbatim>\<open>IsInterruptReconnection\<close> returns false, although the call
  returned "do not retry".
\<close>

theorem ReConn_kicked_offline_resets_token_error:
  assumes "loginStatus u = TokenFailedKickedOffline K"
    and "ReConn T K conf ctx u tr = (res, u', tr')"
  shows "tokenErrCode u' = 0 \<and> IsInterruptReconnection u' = False
           \<and> (\<exists>err. res = Inr (False, False, Some err))"
  using assms(2) unfolding ReConn_kicked_eq [OF assms(1)]
  by (auto simp: IsInterruptReconnection_def)

theorem ReConn_kicked_offline_resets_token_error_witness:
  "IsInterruptReconnection (sample_manager\<lparr>loginStatus := 706\<rparr>) = True
   \<and> IsInterruptReconnection
        (fst (snd (ReConn (stub_conn (None, None) None None) sample_constants sample_conf
                     (Some ''op'') (sample_manager\<lparr>loginStatus := 706\<rparr>) []))) = False"
proof -
  have k: "loginStatus (sample_manager\<lparr>loginStatus := 706\<rparr>)
             = TokenFailedKickedOffline sample_constants"
    by (simp add: sample_constants_def)
  have "IsInterruptReconnection (sample_manager\<lparr>loginStatus := 706\<rparr>) = True"
    by (simp add: IsInterruptReconnection_def sample_manager_simps)
  moreover have "IsInterruptReconnection
        (fst (snd (ReConn (stub_conn (None, None) None None) sample_constants sample_conf
                     (Some ''op'') (sample_manager\<lparr>loginStatus := 706\<rparr>) []))) = False"
    using ReConn_kicked_offline_resets_token_error [OF k, of "stub_conn (None, None) None None"
        sample_conf "Some ''op''" "[]"]
    by (metis prod.collapse)
  ultimately show ?thesis by simp
qed

subsection \<open>The dial\<close>

lemma signals_append: "signals (xs @ ys) = signals xs @ signals ys"
  by (induction xs rule: signals.induct) simp_all

lemma connect_failed_calls_append:
  "connect_failed_calls (xs @ ys) = connect_failed_calls xs @ connect_failed_calls ys"
  by (induction xs rule: connect_failed_calls.induct) simp_all

lemma frame_writes_append: "frame_writes (xs @ ys) = frame_writes xs @ frame_writes ys"
  by (induction xs rule: frame_writes.induct) simp_all

lemma dial_url_update [simp]:
  "dial_url conf (u\<lparr>conn := c\<rparr>) operationID = dial_url conf u operationID"
  "dial_url conf (u\<lparr>tokenErrCode := t\<rparr>) operationID = dial_url conf u operationID"
  by (simp_all add: dial_url_def)

lemma dial_header_update [simp]:
  "dial_header (u\<lparr>conn := c\<rparr>) = dial_header u"
  "dial_header (u\<lparr>tokenErrCode := t\<rparr>) = dial_header u"
  by (simp_all add: dial_header_def)

lemma sample_dial_url:
  "dial_url sample_conf sample_manager ''op''
     = ''ws://h?sendID=u&token=t&platformID=1&operationID=op''"
  by code_simp

lemma ReConn_dialled_eq:
  assumes "loginStatus u \<noteq> TokenFailedKickedOffline K"
    and "listener u = Some l"
    and "Dial T (dial_url conf u operationID) (dial_header u) (closed_conn T (conn u))
           = ((httpResp, err), c)"
  shows "ReConn T K conf (Some operationID) u tr =
           (let tr2 = tr @ (if IsNil T (conn u) then [] else [ConnClose])
                         @ [OnConnecting, ConnDial (dial_url conf u operationID) (dial_header u)]
            in case err of
                 Some e \<Rightarrow>
                   (let u2 = u\<lparr>tokenErrCode := 0, conn := c, loginStatus := LoginFailed K\<rparr>
                    in case httpResp of
                         Some r \<Rightarrow> ReConn_responded K operationID r e u2 tr2
                       | None \<Rightarrow> ReConn_no_response K operationID e u2 tr2)
               | None \<Rightarrow>
                   (Inr (True, False, None),
                    u\<lparr>tokenErrCode := 0, conn := c, loginStatus := LoginSuccess K\<rparr>,
                    tr2 @ [OnConnectSuccess]))"
  using assms
  by (simp add: ReConn_def close_old_eq Let_def split: option.split)

subsection \<open>A successful dial\<close>

text \<open>
  Claim C4. Every call of \<^verbatim>\<open>ReConn\<close> whose dial succeeds (the transport returns no
  error) returns (true, false, nil), notifies \<^verbatim>\<open>OnConnectSuccess\<close> after
  \<^verbatim>\<open>OnConnecting\<close> and the dial, sets the login status to \<^verbatim>\<open>LoginSuccess\<close> and ends
  with \<^verbatim>\<open>tokenErrCode\<close> 0, whatever the code was before the call.
\<close>

theorem ReConn_success:
  assumes "loginStatus u \<noteq> TokenFailedKickedOffline K"
    and "listener u = Some l"
    and "Dial T (dial_url conf u operationID) (dial_header u) (closed_conn T (conn u))
           = ((httpResp, None), c)"
  shows "ReConn T K conf (Some operationID) u tr =
           (Inr (True, False, None),
            u\<lparr>tokenErrCode := 0, conn := c, loginStatus := LoginSuccess K\<rparr>,
            tr @ (if IsNil T (conn u) then [] else [ConnClose])
               @ [OnConnecting, ConnDial (dial_url conf u operationID) (dial_header u),
                  OnConnectSuccess])"
  using ReConn_dialled_eq [OF assms] by simp

theorem ReConn_success_witness:
  "loginStatus sample_manager \<noteq> TokenFailedKickedOffline sample_constants
   \<and> tokenErrCode sample_manager = 702
   \<and> fst (ReConn (stub_conn (None, None) None None) sample_constants sample_conf (Some ''op'')
            sample_manager []) = Inr (True, False, None)
   \<and> loginStatus (fst (snd (ReConn (stub_conn (None, None) None None) sample_constants
            sample_conf (Some ''op'') sample_manager []))) = LoginSuccess sample_constants
   \<and> tokenErrCode (fst (snd (ReConn (stub_conn (None, None) None None) sample_constants
            sample_conf (Some ''op'') sample_manager []))) = 0
   \<and> snd (snd (ReConn (stub_conn (None, None) None None) sample_constants sample_conf
            (Some ''op'') sample_manager []))
       = [ConnClose, OnConnecting, ConnDial ''ws://h?sendID=u&token=t&platformID=1&operationID=op'' [],
          OnConnectSuccess]"
proof -
  have 1: "loginStatus sample_manager \<noteq> TokenFailedKickedOffline sample_constants"
    by (simp add: sample_manager_simps sample_constants_def)
  have 2: "listener sample_manager = Some 0"
    by (simp add: sample_manager_simps)
  have 3: "Dial (stub_conn (None, None) None None) (dial_url sample_conf sample_manager ''op'')
             (dial_header sample_manager)
             (closed_conn (stub_conn (None, None) None None) (conn sample_manager))
           = ((None, None), True)"
    by (simp add: stub_conn_simps)
  note u = sample_dial_url
  have h: "dial_header sample_manager = []"
    by (simp add: dial_header_def sample_manager_simps)
  show ?thesis
    using 1 ReConn_success [OF 1 2 3, where tr = "[]"]
    by (simp add: u h stub_conn_simps sample_manager_simps)
qed


lemma ReConn_responded_token_eq:
  assumes "ErrTokenKicked K \<notin> {ErrTokenExpired K, ErrTokenInvalid K, ErrTokenMalformed K,
             ErrTokenNotValidYet K, ErrTokenUnknown K, ErrTokenDifferentPlatformID K,
             ErrTokenDifferentUserID K}"
    and "code = ucast (StatusCode r)"
    and "code \<in> {ErrTokenExpired K, ErrTokenInvalid K, ErrTokenMalformed K,
             ErrTokenNotValidYet K, ErrTokenUnknown K, ErrTokenDifferentPlatformID K,
             ErrTokenDifferentUserID K, ErrTokenKicked K}"
  shows "ReConn_responded K operationID r e u tr =
           (Inr (False, code = ErrTokenKicked K,
                 Some (WithMessage e
                   (HeaderGet r ''ws_err_msg'' @ '' operationID '' @ operationID @ Error e))),
            u\<lparr>tokenErrCode := code\<rparr>,
            tr @ [OnConnectFailed code
                    (HeaderGet r ''ws_err_msg'' @ '' operationID '' @ operationID @ Error e)]
               @ (if code = ErrTokenExpired K then [OnUserTokenExpired] else []))"
proof -
  from assms(1) have k: "ErrTokenKicked K \<noteq> ErrTokenExpired K" "ErrTokenKicked K \<noteq> ErrTokenInvalid K"
    "ErrTokenKicked K \<noteq> ErrTokenMalformed K" "ErrTokenKicked K \<noteq> ErrTokenNotValidYet K"
    "ErrTokenKicked K \<noteq> ErrTokenUnknown K" "ErrTokenKicked K \<noteq> ErrTokenDifferentPlatformID K"
    "ErrTokenKicked K \<noteq> ErrTokenDifferentUserID K"
    by simp_all
  from assms(3) consider "code = ErrTokenExpired K" | "code = ErrTokenInvalid K"
    | "code = ErrTokenMalformed K" | "code = ErrTokenNotValidYet K" | "code = ErrTokenUnknown K"
    | "code = ErrTokenDifferentPlatformID K" | "code = ErrTokenDifferentUserID K"
    | "code = ErrTokenKicked K"
    by blast
  then show ?thesis
  proof cases
    case 1
    with k show ?thesis
      unfolding ReConn_responded_def Let_def assms(2) [symmetric] by simp
  next
    case 2
    with k show ?thesis
      unfolding ReConn_responded_def Let_def assms(2) [symmetric] by simp
  next
    case 3
    with k show ?thesis
      unfolding ReConn_responded_def Let_def assms(2) [symmetric] by simp
  next
    case 4
    with k show ?thesis
      unfolding ReConn_responded_def Let_def assms(2) [symmetric] by simp
  next
    case 5
    with k show ?thesis
      unfolding ReConn_responded_def Let_def assms(2) [symmetric] by simp
  next
    case 6
    with k show ?thesis
      unfolding ReConn_responded_def Let_def assms(2) [symmetric] by simp
  next
    case 7
    with k show ?thesis
      unfolding ReConn_responded_def Let_def assms(2) [symmetric] by simp
  next
    case 8
    with k show ?thesis
      unfolding ReConn_responded_def Let_def assms(2) [symmetric] by simp
  qed
qed

subsection \<open>A dial rejected by the server\<close>

text \<open>
  Claim C1. Let a call of \<^verbatim>\<open>ReConn\<close> dial and the dial fail with a server response
  whose status code, converted to \<^verbatim>\<open>int32\<close>, is one of the eight token error codes,
  the code of \<^verbatim>\<open>ErrTokenKicked\<close> differing from the seven others. Then the call
  records that code in \<^verbatim>\<open>tokenErrCode\<close>, sets the login status to \<^verbatim>\<open>LoginFailed\<close>
  and returns a non-nil error with retry false; the kicked flag is true exactly
  for the code of \<^verbatim>\<open>ErrTokenKicked\<close>; and the listener is told
  \<^verbatim>\<open>OnConnectFailed\<close> with the code, followed by \<^verbatim>\<open>OnUserTokenExpired\<close> exactly for the
  code of \<^verbatim>\<open>ErrTokenExpired\<close>.
\<close>

theorem ReConn_token_failure:
  assumes "loginStatus u \<noteq> TokenFailedKickedOffline K"
    and "listener u = Some l"
    and "Dial T (dial_url conf u operationID) (dial_header u) (closed_conn T (conn u))
           = ((Some r, Some e), c)"
    and "ErrTokenKicked K \<notin> {ErrTokenExpired K, ErrTokenInvalid K, ErrTokenMalformed K,
             ErrTokenNotValidYet K, ErrTokenUnknown K, ErrTokenDifferentPlatformID K,
             ErrTokenDifferentUserID K}"
    and "code = ucast (StatusCode r)"
    and "code \<in> {ErrTokenExpired K, ErrTokenInvalid K, ErrTokenMalformed K,
             ErrTokenNotValidYet K, ErrTokenUnknown K, ErrTokenDifferentPlatformID K,
             ErrTokenDifferentUserID K, ErrTokenKicked K}"
  shows "ReConn T K conf (Some operationID) u tr =
           (Inr (False, code = ErrTokenKicked K,
                 Some (WithMessage e
                   (HeaderGet r ''ws_err_msg'' @ '' operationID '' @ operationID @ Error e))),
            u\<lparr>conn := c, loginStatus := LoginFailed K, tokenErrCode := code\<rparr>,
            tr @ (if IsNil T (conn u) then [] else [ConnClose])
               @ [OnConnecting, ConnDial (dial_url conf u operationID) (dial_header u),
                  OnConnectFailed code
                    (HeaderGet r ''ws_err_msg'' @ '' operationID '' @ operationID @ Error e)]
               @ (if code = ErrTokenExpired K then [OnUserTokenExpired] else []))"
  unfolding ReConn_dialled_eq [OF assms(1,2,3)] Let_def option.case
    ReConn_responded_token_eq [OF assms(4,5,6)]
  by simp

lemma ReConn_responded_other_eq:
  assumes "code = ucast (StatusCode r)"
    and "code \<notin> {ErrTokenExpired K, ErrTokenInvalid K, ErrTokenMalformed K,
             ErrTokenNotValidYet K, ErrTokenUnknown K, ErrTokenDifferentPlatformID K,
             ErrTokenDifferentUserID K, ErrTokenKicked K}"
  shows "ReConn_responded K operationID r e u tr =
           (Inr (True, False, Some (WithMessage e (Error e @ '' operationID '' @ operationID))),
            u,
            tr @ [OnConnectFailed code
                    (HeaderGet r ''ws_err_msg'' @ '' operationID '' @ operationID @ Error e),
                  OnConnectFailed 1001 (Error e @ '' operationID '' @ operationID)])"
  using assms(2) unfolding ReConn_responded_def Let_def assms(1) [symmetric]
  by simp

text \<open>
  Claim C9. Let a call of \<^verbatim>\<open>ReConn\<close> dial and the dial fail with a server response
  whose status code, converted to \<^verbatim>\<open>int32\<close>, is none of the eight token error
  codes. Then the call returns (true, false, a non-nil error), leaves
  \<^verbatim>\<open>tokenErrCode\<close> at 0, and invokes \<^verbatim>\<open>OnConnectFailed\<close> exactly twice: first with
  the status code and the diagnostic message built from the response header,
  then with 1001.
\<close>

theorem ReConn_unrecognized_status:
  assumes "loginStatus u \<noteq> TokenFailedKickedOffline K"
    and "listener u = Some l"
    and "Dial T (dial_url conf u operationID) (dial_header u) (closed_conn T (conn u))
           = ((Some r, Some e), c)"
    and "code = ucast (StatusCode r)"
    and "code \<notin> {ErrTokenExpired K, ErrTokenInvalid K, ErrTokenMalformed K,
             ErrTokenNotValidYet K, ErrTokenUnknown K, ErrTokenDifferentPlatformID K,
             ErrTokenDifferentUserID K, ErrTokenKicked K}"
  shows "(ReConn T K conf (Some operationID) u tr =
           (Inr (True, False, Some (WithMessage e (Error e @ '' operationID '' @ operationID))),
            u\<lparr>tokenErrCode := 0, conn := c, loginStatus := LoginFailed K\<rparr>,
            tr @ (if IsNil T (conn u) then [] else [ConnClose])
               @ [OnConnecting, ConnDial (dial_url conf u operationID) (dial_header u),
                  OnConnectFailed code
                    (HeaderGet r ''ws_err_msg'' @ '' operationID '' @ operationID @ Error e),
                  OnConnectFailed 1001 (Error e @ '' operationID '' @ operationID)]))
         \<and> connect_failed_calls (snd (snd (ReConn T K conf (Some operationID) u tr)))
             = connect_failed_calls tr
                 @ [(code, HeaderGet r ''ws_err_msg'' @ '' operationID '' @ operationID @ Error e),
                    (1001, Error e @ '' operationID '' @ operationID)]"
  unfolding ReConn_dialled_eq [OF assms(1,2,3)] Let_def option.case
    ReConn_responded_other_eq [OF assms(4,5)]
  by (simp add: connect_failed_calls_append)


lemma ReConn_responded_signals:
  "signals (snd (snd (ReConn_responded K operationID r e u tr))) = signals tr"
  unfolding ReConn_responded_def Let_def
  by (simp add: signals_append)

lemma ReConn_no_response_signals:
  "signals (snd (snd (ReConn_no_response K operationID e u tr))) =
     signals tr @
       (case ConversationCh u of
          Some ch \<Rightarrow>
            [(\<lparr>MsgList = [], OperationID = operationID, SyncFlag = MsgSyncBegin K\<rparr>, ch),
             (\<lparr>MsgList = [], OperationID = operationID, SyncFlag = MsgSyncFailed K\<rparr>, ch)]
        | None \<Rightarrow> [])"
  unfolding ReConn_no_response_def Let_def
  by (simp add: signals_append split: option.split)

lemma ReConn_signals_eq:
  "signals (snd (snd (ReConn T K conf ctx u tr))) =
     signals tr @
       (if loginStatus u = TokenFailedKickedOffline K then []
        else case listener u of
               None \<Rightarrow> []
             | Some l \<Rightarrow>
                 (case ctx of
                    None \<Rightarrow> []
                  | Some operationID \<Rightarrow>
                      (case fst (Dial T (dial_url conf u operationID) (dial_header u)
                                   (closed_conn T (conn u))) of
                         (Some r, err) \<Rightarrow> []
                       | (None, None) \<Rightarrow> []
                       | (None, Some e) \<Rightarrow>
                           (case ConversationCh u of
                              Some ch \<Rightarrow>
                                [(\<lparr>MsgList = [], OperationID = operationID,
                                   SyncFlag = MsgSyncBegin K\<rparr>, ch),
                                 (\<lparr>MsgList = [], OperationID = operationID,
                                   SyncFlag = MsgSyncFailed K\<rparr>, ch)]
                            | None \<Rightarrow> []))))"
  by (simp add: ReConn_def close_old_eq Let_def signals_append ReConn_responded_signals
      ReConn_no_response_signals split: option.split prod.split)

subsection \<open>The signals on the command channel\<close>

text \<open>
  Claim C3. A call of \<^verbatim>\<open>ReConn\<close> whose dial fails without a server response pushes,
  when a command channel is configured, exactly two signals on it: first the one
  flagged \<^verbatim>\<open>MsgSyncBegin\<close>, then the one flagged \<^verbatim>\<open>MsgSyncFailed\<close>, both with the
  operation ID of the call and an empty message list; with no command channel it
  pushes nothing. On every other path (the guard on a kicked session, a panic
  before the dial, a successful dial, a dial rejected by the server) no signal
  is pushed.
\<close>

theorem ReConn_signals:
  "(loginStatus u \<noteq> TokenFailedKickedOffline K \<and> listener u = Some l \<and> ctx = Some operationID
      \<and> Dial T (dial_url conf u operationID) (dial_header u) (closed_conn T (conn u))
           = ((None, Some e), c)
    \<longrightarrow> signals (snd (snd (ReConn T K conf ctx u tr))) =
          signals tr @
            (case ConversationCh u of
               Some ch \<Rightarrow>
                 [(\<lparr>MsgList = [], OperationID = operationID, SyncFlag = MsgSyncBegin K\<rparr>, ch),
                  (\<lparr>MsgList = [], OperationID = operationID, SyncFlag = MsgSyncFailed K\<rparr>, ch)]
             | None \<Rightarrow> []))
   \<and> (loginStatus u = TokenFailedKickedOffline K \<or> listener u = None \<or> ctx = None
        \<or> (\<exists>operationID r c. ctx = Some operationID
              \<and> Dial T (dial_url conf u operationID) (dial_header u) (closed_conn T (conn u))
                   = ((r, None), c))
        \<or> (\<exists>operationID r e c. ctx = Some operationID
              \<and> Dial T (dial_url conf u operationID) (dial_header u) (closed_conn T (conn u))
                   = ((Some r, Some e), c))
    \<longrightarrow> signals (snd (snd (ReConn T K conf ctx u tr))) = signals tr)"
  unfolding ReConn_signals_eq
  by (auto split: option.split)


lemma sample_dial_header: "dial_header sample_manager = []"
  by (simp add: dial_header_def sample_manager_simps)

lemma sample_not_kicked:
  "loginStatus sample_manager \<noteq> TokenFailedKickedOffline sample_constants"
  by (simp add: sample_manager_simps sample_constants_def)

lemma sample_dial:
  "Dial (stub_conn (r, Some e) w x) (dial_url sample_conf sample_manager ''op'')
     (dial_header sample_manager) (closed_conn (stub_conn (r, Some e) w x) (conn sample_manager))
   = ((r, Some e), True)"
  by (simp add: stub_conn_simps closed_conn_def sample_manager_simps)

theorem ReConn_token_failure_witness:
  "fst (ReConn (stub_conn (Some (sample_response 701), Some (New ''bad handshake'')) None None)
          sample_constants sample_conf (Some ''op'') sample_manager [])
     = Inr (False, False,
            Some (WithMessage (New ''bad handshake'') ''rejected operationID opbad handshake''))
   \<and> tokenErrCode (fst (snd (ReConn
          (stub_conn (Some (sample_response 701), Some (New ''bad handshake'')) None None)
          sample_constants sample_conf (Some ''op'') sample_manager []))) = 701
   \<and> snd (snd (ReConn (stub_conn (Some (sample_response 701), Some (New ''bad handshake'')) None None)
          sample_constants sample_conf (Some ''op'') sample_manager []))
     = [ConnClose, OnConnecting,
        ConnDial ''ws://h?sendID=u&token=t&platformID=1&operationID=op'' [],
        OnConnectFailed 701 ''rejected operationID opbad handshake'', OnUserTokenExpired]
   \<and> fst (ReConn (stub_conn (Some (sample_response 706), Some (New ''bad handshake'')) None None)
          sample_constants sample_conf (Some ''op'') sample_manager [])
     = Inr (False, True,
            Some (WithMessage (New ''bad handshake'') ''rejected operationID opbad handshake''))
   \<and> tokenErrCode (fst (snd (ReConn
          (stub_conn (Some (sample_response 706), Some (New ''bad handshake'')) None None)
          sample_constants sample_conf (Some ''op'') sample_manager []))) = 706"
proof -
  have l: "listener sample_manager = Some 0"
    by (simp add: sample_manager_simps)
  have k: "ErrTokenKicked sample_constants \<notin>
      {ErrTokenExpired sample_constants, ErrTokenInvalid sample_constants,
       ErrTokenMalformed sample_constants, ErrTokenNotValidYet sample_constants,
       ErrTokenUnknown sample_constants, ErrTokenDifferentPlatformID sample_constants,
       ErrTokenDifferentUserID sample_constants}"
    by (simp add: sample_constants_def)
  have c1: "(701 :: int32) = ucast (StatusCode (sample_response 701))"
    by (simp add: sample_response_def)
  have m1: "(701 :: int32) \<in>
      {ErrTokenExpired sample_constants, ErrTokenInvalid sample_constants,
       ErrTokenMalformed sample_constants, ErrTokenNotValidYet sample_constants,
       ErrTokenUnknown sample_constants, ErrTokenDifferentPlatformID sample_constants,
       ErrTokenDifferentUserID sample_constants, ErrTokenKicked sample_constants}"
    by (simp add: sample_constants_def)
  have c2: "(706 :: int32) = ucast (StatusCode (sample_response 706))"
    by (simp add: sample_response_def)
  have m2: "(706 :: int32) \<in>
      {ErrTokenExpired sample_constants, ErrTokenInvalid sample_constants,
       ErrTokenMalformed sample_constants, ErrTokenNotValidYet sample_constants,
       ErrTokenUnknown sample_constants, ErrTokenDifferentPlatformID sample_constants,
       ErrTokenDifferentUserID sample_constants, ErrTokenKicked sample_constants}"
    by (simp add: sample_constants_def)
  show ?thesis
    using ReConn_token_failure [OF sample_not_kicked l sample_dial k c1 m1, where tr = "[]"]
      ReConn_token_failure [OF sample_not_kicked l sample_dial k c2 m2, where tr = "[]"]
    by (simp add: sample_dial_url sample_dial_header stub_conn_simps sample_manager_simps
        sample_response_def sample_constants_def)
qed

theorem ReConn_unrecognized_status_witness:
  "fst (ReConn (stub_conn (Some (sample_response 500), Some (New ''bad handshake'')) None None)
          sample_constants sample_conf (Some ''op'') sample_manager [])
     = Inr (True, False, Some (WithMessage (New ''bad handshake'') ''bad handshake operationID op''))
   \<and> connect_failed_calls (snd (snd (ReConn
          (stub_conn (Some (sample_response 500), Some (New ''bad handshake'')) None None)
          sample_constants sample_conf (Some ''op'') sample_manager [])))
     = [(500, ''rejected operationID opbad handshake''), (1001, ''bad handshake operationID op'')]"
proof -
  have l: "listener sample_manager = Some 0"
    by (simp add: sample_manager_simps)
  have c: "(500 :: int32) = ucast (StatusCode (sample_response 500))"
    by (simp add: sample_response_def)
  have m: "(500 :: int32) \<notin>
      {ErrTokenExpired sample_constants, ErrTokenInvalid sample_constants,
       ErrTokenMalformed sample_constants, ErrTokenNotValidYet sample_constants,
       ErrTokenUnknown sample_constants, ErrTokenDifferentPlatformID sample_constants,
       ErrTokenDifferentUserID sample_constants, ErrTokenKicked sample_constants}"
    by (simp add: sample_constants_def)
  show ?thesis
    using ReConn_unrecognized_status [OF sample_not_kicked l sample_dial c m, where tr = "[]"]
    by (simp add: sample_response_def)
qed

theorem ReConn_signals_witness:
  "signals (snd (snd (ReConn (stub_conn (None, Some (New ''no route'')) None None)
       sample_constants sample_conf (Some ''op'') sample_manager [])))
     = [(\<lparr>MsgList = [], OperationID = ''op'', SyncFlag = 1001\<rparr>, 0),
        (\<lparr>MsgList = [], OperationID = ''op'', SyncFlag = 1004\<rparr>, 0)]
   \<and> signals (snd (snd (ReConn (stub_conn (None, None) None None)
       sample_constants sample_conf (Some ''op'') sample_manager []))) = []"
proof -
  have l: "listener sample_manager = Some 0"
    by (simp add: sample_manager_simps)
  have d: "Dial (stub_conn (None, None) None None) (dial_url sample_conf sample_manager ''op'')
             (dial_header sample_manager)
             (closed_conn (stub_conn (None, None) None None) (conn sample_manager))
           = ((None, None), True)"
    by (simp add: stub_conn_simps)
  have a: "signals (snd (snd (ReConn (stub_conn (None, Some (New ''no route'')) None None)
       sample_constants sample_conf (Some ''op'') sample_manager [])))
     = [(\<lparr>MsgList = [], OperationID = ''op'', SyncFlag = 1001\<rparr>, 0),
        (\<lparr>MsgList = [], OperationID = ''op'', SyncFlag = 1004\<rparr>, 0)]"
    using ReConn_signals [where u = sample_manager and K = sample_constants and l = 0
        and ctx = "Some ''op''" and operationID = "''op''"
        and T = "stub_conn (None, Some (New ''no route'')) None None" and conf = sample_conf
        and e = "New ''no route''" and c = True and tr = "[]"]
      sample_not_kicked l sample_dial [of None "New ''no route''" None None]
    by (simp add: sample_manager_simps sample_constants_def)
  have b: "signals (snd (snd (ReConn (stub_conn (None, None) None None)
       sample_constants sample_conf (Some ''op'') sample_manager []))) = []"
    using ReConn_signals [where u = sample_manager and K = sample_constants and l = 0
        and ctx = "Some ''op''" and operationID = "''op''"
        and T = "stub_conn (None, None) None None" and conf = sample_conf
        and e = "New ''no route''" and c = True and tr = "[]"] d
    by auto
  from a b show ?thesis by simp
qed


subsection \<open>Rendering a length\<close>

lemma Wrap_None_iff: "Wrap err message = None \<longleftrightarrow> err = None"
  by (cases err) simp_all

lemma digit_val_digit_char: "d < 10 \<Longrightarrow> digit_val (digit_char d) = d"
  by (simp add: digit_val_def digit_char_def)

lemma ParseNat_snoc: "ParseNat (s @ [c]) = 10 * ParseNat s + digit_val c"
  by (simp add: ParseNat_def)

lemma ParseNat_FormatNat: "ParseNat (FormatNat n) = n"
proof (induction n rule: FormatNat.induct)
  case (1 n)
  show ?case
  proof (cases "n < 10")
    case True
    then show ?thesis
      by (subst FormatNat.simps) (simp add: ParseNat_def digit_val_digit_char)
  next
    case False
    with 1 have "ParseNat (FormatNat (n div 10)) = n div 10" by simp
    with False show ?thesis
      by (subst FormatNat.simps) (simp add: ParseNat_snoc digit_val_digit_char)
  qed
qed

lemma ParseNat_IntToString: "ParseNat (IntToString (int n)) = n"
  by (simp add: IntToString_def FormatInt_def ParseNat_FormatNat)

subsection \<open>Closing\<close>

text \<open>
  Claim C5, amended. \<^verbatim>\<open>CloseConn\<close> on a manager whose transport holds no connection
  returns nil, calls nothing and changes nothing. Otherwise it calls the
  transport's \<^verbatim>\<open>Close\<close> once and returns its error wrapped (nil when the close
  returned nil). The manager does not clear the handle: the transport state
  afterwards is the one \<^verbatim>\<open>Close\<close> left, and no other field of the manager
  changes; in particular the login status is the same.
\<close>

theorem CloseConn_effect:
  "(IsNil T (conn u) \<longrightarrow> CloseConn T u tr = (None, u, tr))
   \<and> (\<not> IsNil T (conn u) \<longrightarrow>
        fst (CloseConn T u tr) =
          (case fst (Close T (conn u)) of None \<Rightarrow> None | Some e \<Rightarrow> Some (WithMessage e ''''))
        \<and> conn (fst (snd (CloseConn T u tr))) = snd (Close T (conn u))
        \<and> snd (snd (CloseConn T u tr)) = tr @ [ConnClose])
   \<and> loginStatus (fst (snd (CloseConn T u tr))) = loginStatus u
   \<and> fst (snd (CloseConn T u tr)) = u\<lparr>conn := conn (fst (snd (CloseConn T u tr)))\<rparr>"
  by (simp add: CloseConn_def split: prod.split option.split)

text \<open>
  With a transport whose \<^verbatim>\<open>Close\<close> succeeds and keeps its handle, the manager still
  holds a handle after \<^verbatim>\<open>CloseConn\<close>: the assignment that would clear it is
  commented out on line 76.
\<close>

theorem CloseConn_keeps_handle_counterexample:
  "\<not> IsNil (stub_conn (None, None) None None) (conn sample_manager)
   \<and> fst (CloseConn (stub_conn (None, None) None None) sample_manager []) = None
   \<and> snd (snd (CloseConn (stub_conn (None, None) None None) sample_manager [])) = [ConnClose]
   \<and> \<not> IsNil (stub_conn (None, None) None None)
         (conn (fst (snd (CloseConn (stub_conn (None, None) None None) sample_manager []))))"
  by (simp add: CloseConn_def stub_conn_simps sample_manager_simps)

theorem CloseConn_effect_witness:
  "IsNil (stub_conn (None, None) None None) (conn (sample_manager\<lparr>conn := False\<rparr>))
   \<and> fst (CloseConn (stub_conn (None, None) None None) (sample_manager\<lparr>conn := False\<rparr>) []) = None
   \<and> snd (snd (CloseConn (stub_conn (None, None) None None) (sample_manager\<lparr>conn := False\<rparr>) []))
       = []
   \<and> \<not> IsNil (stub_conn (None, None) None None\<lparr>Close := \<lambda>c. (Some (New ''broken pipe''), False)\<rparr>)
         (conn sample_manager)
   \<and> fst (CloseConn (stub_conn (None, None) None None\<lparr>Close := \<lambda>c. (Some (New ''broken pipe''), False)\<rparr>)
            sample_manager [])
       = Some (WithMessage (New ''broken pipe'') '''')
   \<and> loginStatus (fst (snd (CloseConn
            (stub_conn (None, None) None None\<lparr>Close := \<lambda>c. (Some (New ''broken pipe''), False)\<rparr>)
            sample_manager []))) = 101"
  using CloseConn_effect [where T = "stub_conn (None, None) None None"
      and u = "sample_manager\<lparr>conn := False\<rparr>" and tr = "[]"]
    CloseConn_effect [where T = "stub_conn (None, None) None None
        \<lparr>Close := \<lambda>c. (Some (New ''broken pipe''), False)\<rparr>"
      and u = sample_manager and tr = "[]"]
  by (simp add: stub_conn_def sample_manager_simps)

subsection \<open>Sending\<close>

text \<open>
  Claim C6, amended. A send on a manager with a live handle whose encoded request
  is longer than \<^verbatim>\<open>MaxTotalMsgLen\<close> writes no frame. If arming the write deadline
  succeeds, it returns the error "msg too long" wrapped with the decimal
  rendering of the encoded length (which reads back as that length), after the
  single transport call \<^verbatim>\<open>SetWriteTimeout\<close>.
\<close>

theorem writeBinaryMsg_oversized:
  assumes "encoder u msg = (data, None)"
    and "\<not> IsNil T (conn u)"
    and "int (length data) > MaxTotalMsgLen K"
  shows "frame_writes (snd (snd (writeBinaryMsg T K msg u tr))) = frame_writes tr
         \<and> (fst (SetWriteTimeout T writeTimeoutSeconds (conn u)) = None \<longrightarrow>
              writeBinaryMsg T K msg u tr =
                (Some (WithMessage (New ''msg too long'') (IntToString (int (length data)))),
                 u\<lparr>conn := snd (SetWriteTimeout T writeTimeoutSeconds (conn u))\<rparr>,
                 tr @ [ConnSetWriteTimeout writeTimeoutSeconds]))
         \<and> ParseNat (IntToString (int (length data))) = length data"
  using assms
  by (simp add: writeBinaryMsg_def Let_def frame_writes_append ParseNat_IntToString
      split: prod.split option.split)

text \<open>
  When arming the write deadline fails, an oversized request is answered with
  the wrapped deadline error, not with the oversized-message error: the deadline
  is armed and checked on lines 135 to 138, before the size check of line 140.
\<close>

theorem writeBinaryMsg_oversized_counterexample:
  "\<not> IsNil (stub_conn (None, None) (Some (New ''broken pipe'')) None) (conn sample_manager)
   \<and> encoder sample_manager [1, 2, 3, 4, 5] = ([1, 2, 3, 4, 5], None)
   \<and> int (length [1, 2, 3, 4, 5 :: byte]) > MaxTotalMsgLen (sample_constants\<lparr>MaxTotalMsgLen := 4\<rparr>)
   \<and> fst (writeBinaryMsg (stub_conn (None, None) (Some (New ''broken pipe'')) None)
            (sample_constants\<lparr>MaxTotalMsgLen := 4\<rparr>) [1, 2, 3, 4, 5] sample_manager [])
       = Some (WithMessage (New ''broken pipe'') ''SetWriteTimeout'')
   \<and> fst (writeBinaryMsg (stub_conn (None, None) (Some (New ''broken pipe'')) None)
            (sample_constants\<lparr>MaxTotalMsgLen := 4\<rparr>) [1, 2, 3, 4, 5] sample_manager [])
       \<noteq> Some (WithMessage (New ''msg too long'') (IntToString 5))"
  by (simp add: writeBinaryMsg_def stub_conn_simps sample_manager_simps)

theorem writeBinaryMsg_oversized_witness:
  "fst (writeBinaryMsg (stub_conn (None, None) None None)
          (sample_constants\<lparr>MaxTotalMsgLen := 4\<rparr>) [1, 2, 3, 4, 5] sample_manager [])
     = Some (WithMessage (New ''msg too long'') ''5'')
   \<and> snd (snd (writeBinaryMsg (stub_conn (None, None) None None)
          (sample_constants\<lparr>MaxTotalMsgLen := 4\<rparr>) [1, 2, 3, 4, 5] sample_manager []))
     = [ConnSetWriteTimeout 30]"
proof -
  have 1: "encoder sample_manager [1, 2, 3, 4, 5] = ([1, 2, 3, 4, 5], None)"
    by (simp add: sample_manager_simps)
  have 2: "\<not> IsNil (stub_conn (None, None) None None) (conn sample_manager)"
    by (simp add: stub_conn_simps sample_manager_simps)
  have 3: "int (length [1, 2, 3, 4, 5 :: byte])
             > MaxTotalMsgLen (sample_constants\<lparr>MaxTotalMsgLen := 4\<rparr>)"
    by simp
  have 4: "IntToString 5 = ''5''"
    by code_simp
  show ?thesis
    using writeBinaryMsg_oversized [OF 1 2 3, where tr = "[]"]
    by (simp add: stub_conn_simps 4 writeTimeoutSeconds_def)
qed

text \<open>
  Claim C7. A send that returns nil has encoded the request without error, found
  the encoded bytes no longer than \<^verbatim>\<open>MaxTotalMsgLen\<close> (whether compression is
  enabled or not), armed the write deadline and written exactly one frame, of
  type \<^verbatim>\<open>BinaryMessage\<close>, whose payload is the compressed encoded bytes when
  compression is enabled and the encoded bytes otherwise.
\<close>

theorem writeBinaryMsg_frame:
  assumes "writeBinaryMsg T K msg u tr = (None, u', tr')"
  shows "snd (encoder u msg) = None
         \<and> int (length (fst (encoder u msg))) \<le> MaxTotalMsgLen K
         \<and> tr' = tr @ [ConnSetWriteTimeout writeTimeoutSeconds,
                       ConnWriteMessage BinaryMessage
                         (if IsCompression u then fst (compressor u (fst (encoder u msg)))
                          else fst (encoder u msg))]
         \<and> frame_writes tr' = frame_writes tr @
              [(BinaryMessage,
                if IsCompression u then fst (compressor u (fst (encoder u msg)))
                else fst (encoder u msg))]"
  using assms
  by (auto simp: writeBinaryMsg_def Let_def frame_writes_append Wrap_None_iff
      split: prod.splits option.splits if_splits)


theorem writeBinaryMsg_frame_witness:
  "fst (writeBinaryMsg (stub_conn (None, None) None None)
          (sample_constants\<lparr>MaxTotalMsgLen := 4\<rparr>) [1, 2, 3] sample_manager []) = None
   \<and> frame_writes (snd (snd (writeBinaryMsg (stub_conn (None, None) None None)
          (sample_constants\<lparr>MaxTotalMsgLen := 4\<rparr>) [1, 2, 3] sample_manager [])))
       = [(2, [1, 2, 3])]
   \<and> fst (writeBinaryMsg (stub_conn (None, None) None None)
          (sample_constants\<lparr>MaxTotalMsgLen := 4\<rparr>) [1, 2, 3]
          (sample_manager\<lparr>IsCompression := True\<rparr>) []) = None
   \<and> frame_writes (snd (snd (writeBinaryMsg (stub_conn (None, None) None None)
          (sample_constants\<lparr>MaxTotalMsgLen := 4\<rparr>) [1, 2, 3]
          (sample_manager\<lparr>IsCompression := True\<rparr>) [])))
       = [(2, [31, 139, 1, 2, 3])]"
proof -
  have a: "fst (writeBinaryMsg (stub_conn (None, None) None None)
          (sample_constants\<lparr>MaxTotalMsgLen := 4\<rparr>) [1, 2, 3] sample_manager []) = None"
    by (simp add: writeBinaryMsg_def stub_conn_simps sample_manager_simps)
  have b: "fst (writeBinaryMsg (stub_conn (None, None) None None)
          (sample_constants\<lparr>MaxTotalMsgLen := 4\<rparr>) [1, 2, 3]
          (sample_manager\<lparr>IsCompression := True\<rparr>) []) = None"
    by (simp add: writeBinaryMsg_def stub_conn_simps sample_manager_simps)
  from a have a': "writeBinaryMsg (stub_conn (None, None) None None)
          (sample_constants\<lparr>MaxTotalMsgLen := 4\<rparr>) [1, 2, 3] sample_manager []
        = (None, fst (snd (writeBinaryMsg (stub_conn (None, None) None None)
                   (sample_constants\<lparr>MaxTotalMsgLen := 4\<rparr>) [1, 2, 3] sample_manager [])),
           snd (snd (writeBinaryMsg (stub_conn (None, None) None None)
                   (sample_constants\<lparr>MaxTotalMsgLen := 4\<rparr>) [1, 2, 3] sample_manager [])))"
    by (metis prod.collapse)
  from b have b': "writeBinaryMsg (stub_conn (None, None) None None)
          (sample_constants\<lparr>MaxTotalMsgLen := 4\<rparr>) [1, 2, 3]
          (sample_manager\<lparr>IsCompression := True\<rparr>) []
        = (None, fst (snd (writeBinaryMsg (stub_conn (None, None) None None)
                   (sample_constants\<lparr>MaxTotalMsgLen := 4\<rparr>) [1, 2, 3]
                   (sample_manager\<lparr>IsCompression := True\<rparr>) [])),
           snd (snd (writeBinaryMsg (stub_conn (None, None) None None)
                   (sample_constants\<lparr>MaxTotalMsgLen := 4\<rparr>) [1, 2, 3]
                   (sample_manager\<lparr>IsCompression := True\<rparr>) [])))"
    by (metis prod.collapse)
  show ?thesis
    using a b writeBinaryMsg_frame [OF a'] writeBinaryMsg_frame [OF b']
    by (simp add: sample_manager_simps BinaryMessage_def)
qed

end
